theory Spec2Isabelle
  imports Main "HOL-Library.Sublist" "HOL-Library.AList"
begin

section \<open>Strings\<close>

text \<open>
  Source strings are modelled as \<^typ>\<open>string\<close>, a list of 8-bit characters. The
  character classes of the regular expressions of the source are written out as the
  lists of their members: \<open>\d\<close> is \<open>[0-9]\<close>, \<open>\w\<close> is \<open>[A-Za-z0-9_]\<close>, and \<open>\s\<close> is the
  white space and line terminators of the language within this range (TAB, LF, VT, FF,
  CR, SP, NBSP).
\<close>

definition isDigit :: "char \<Rightarrow> bool" where
  "isDigit c = (c \<in> set ''0123456789'')"

definition isLower :: "char \<Rightarrow> bool" where
  "isLower c = (c \<in> set ''abcdefghijklmnopqrstuvwxyz'')"

definition isUpper :: "char \<Rightarrow> bool" where
  "isUpper c = (c \<in> set ''ABCDEFGHIJKLMNOPQRSTUVWXYZ'')"

definition isWord :: "char \<Rightarrow> bool" where
  "isWord c = (isLower c \<or> isUpper c \<or> isDigit c \<or> c = CHR ''_'')"

definition isSpace :: "char \<Rightarrow> bool" where
  "isSpace c =
     (c \<in> set [CHR '' '', CHR 0x0A, CHR 0x09, CHR 0x0B, CHR 0x0C, CHR 0x0D, CHR 0xA0])"

definition LF :: char where
  "LF = CHR 0x0A"

definition CR :: char where
  "CR = CHR 0x0D"

definition ESC :: char where
  "ESC = CHR 0x1B"

text \<open>\<open>toUpperCase\<close> and \<open>toLowerCase\<close> on one character of this range: the letters
  of ASCII and the accented letters \<open>0xC0\<close> to \<open>0xDE\<close> and \<open>0xE0\<close> to \<open>0xFE\<close> (without
  the two arithmetic signs \<open>0xD7\<close> and \<open>0xF7\<close>). The upper-case forms of \<open>0xB5\<close> and
  \<open>0xFF\<close> and the expansion of \<open>0xDF\<close> lie outside the range; those characters are left
  as they are.\<close>

definition lowerLetters :: string where
  "lowerLetters =
     ''abcdefghijklmnopqrstuvwxyz'' @
     [CHR 0xE0, CHR 0xE1, CHR 0xE2, CHR 0xE3, CHR 0xE4, CHR 0xE5, CHR 0xE6, CHR 0xE7,
      CHR 0xE8, CHR 0xE9, CHR 0xEA, CHR 0xEB, CHR 0xEC, CHR 0xED, CHR 0xEE, CHR 0xEF,
      CHR 0xF0, CHR 0xF1, CHR 0xF2, CHR 0xF3, CHR 0xF4, CHR 0xF5, CHR 0xF6, CHR 0xF8,
      CHR 0xF9, CHR 0xFA, CHR 0xFB, CHR 0xFC, CHR 0xFD, CHR 0xFE]"

definition upperLetters :: string where
  "upperLetters =
     ''ABCDEFGHIJKLMNOPQRSTUVWXYZ'' @
     [CHR 0xC0, CHR 0xC1, CHR 0xC2, CHR 0xC3, CHR 0xC4, CHR 0xC5, CHR 0xC6, CHR 0xC7,
      CHR 0xC8, CHR 0xC9, CHR 0xCA, CHR 0xCB, CHR 0xCC, CHR 0xCD, CHR 0xCE, CHR 0xCF,
      CHR 0xD0, CHR 0xD1, CHR 0xD2, CHR 0xD3, CHR 0xD4, CHR 0xD5, CHR 0xD6, CHR 0xD8,
      CHR 0xD9, CHR 0xDA, CHR 0xDB, CHR 0xDC, CHR 0xDD, CHR 0xDE]"

definition toUpperChar :: "char \<Rightarrow> char" where
  "toUpperChar c = (case map_of (zip lowerLetters upperLetters) c of Some u \<Rightarrow> u | None \<Rightarrow> c)"

definition toLowerChar :: "char \<Rightarrow> char" where
  "toLowerChar c = (case map_of (zip upperLetters lowerLetters) c of Some l \<Rightarrow> l | None \<Rightarrow> c)"

definition toLowerCase :: "string \<Rightarrow> string" where
  "toLowerCase s = map toLowerChar s"

definition toUpperCase :: "string \<Rightarrow> string" where
  "toUpperCase s = map toUpperChar s"

text \<open>\<open>s.includes(t)\<close>: \<open>t\<close> occurs in \<open>s\<close> as a contiguous substring.\<close>

fun includesStr :: "string \<Rightarrow> string \<Rightarrow> bool" where
  "includesStr [] t = (t = [])"
| "includesStr (c # cs) t = (prefix t (c # cs) \<or> includesStr cs t)"

text \<open>\<open>s.trim()\<close> removes leading and trailing white space.\<close>

definition trim :: "string \<Rightarrow> string" where
  "trim s = rev (dropWhile isSpace (rev (dropWhile isSpace s)))"

text \<open>\<open>s.split(d)\<close> for a one-character separator: never an empty array.\<close>

fun split :: "char \<Rightarrow> string \<Rightarrow> string list" where
  "split d [] = [[]]"
| "split d (c # cs) =
     (if c = d then [] # split d cs
      else (case split d cs of [] \<Rightarrow> [[c]] | x # xs \<Rightarrow> (c # x) # xs))"

section \<open>Regular expressions\<close>

text \<open>
  The regular expressions of the source are values of \<open>regex\<close>, run by a backtracking
  matcher in continuation-passing style that follows the matching order of the language:
  alternatives left to right, a greedy repetition tries one more iteration before it tries
  to go on, a lazy repetition tries to go on first. A position is the character before it
  (for \<open>\b\<close>) and the rest of the input. An iteration of a repetition that consumes nothing
  is rejected, so a repetition runs at most as many iterations as there are characters
  left: the iteration count of \<open>iterG\<close> and \<open>iterL\<close> starts from that number. No
  repetition of the source contains a capture group.
\<close>

datatype regex =
    Chr "char \<Rightarrow> bool"
  | Eps
  | Seq regex regex
  | Alt regex regex
  | Star regex
  | LazyStar regex
  | Group nat regex
  | Eoi
  | WordB

type_synonym caps = "nat \<rightharpoonup> string"
type_synonym pos = "char option \<times> string"
type_synonym 'a cont = "caps \<Rightarrow> pos \<Rightarrow> 'a option"

definition orElse :: "'a option \<Rightarrow> 'a option \<Rightarrow> 'a option" where
  "orElse a b = (case a of Some x \<Rightarrow> Some x | None \<Rightarrow> b)"

definition progress :: "pos \<Rightarrow> 'a cont \<Rightarrow> 'a cont" where
  "progress p k = (\<lambda>caps' p'. if length (snd p') < length (snd p) then k caps' p' else None)"

primrec iterG :: "('a cont \<Rightarrow> 'a cont) \<Rightarrow> 'a cont \<Rightarrow> nat \<Rightarrow> 'a cont" where
  "iterG f k 0 caps p = k caps p"
| "iterG f k (Suc n) caps p = orElse (f (progress p (iterG f k n)) caps p) (k caps p)"

primrec iterL :: "('a cont \<Rightarrow> 'a cont) \<Rightarrow> 'a cont \<Rightarrow> nat \<Rightarrow> 'a cont" where
  "iterL f k 0 caps p = k caps p"
| "iterL f k (Suc n) caps p = orElse (k caps p) (f (progress p (iterL f k n)) caps p)"

definition isWordAt :: "char option \<Rightarrow> bool" where
  "isWordAt c = (case c of None \<Rightarrow> False | Some x \<Rightarrow> isWord x)"

definition nextChar :: "string \<Rightarrow> char option" where
  "nextChar s = (case s of [] \<Rightarrow> None | c # cs \<Rightarrow> Some c)"

primrec run :: "regex \<Rightarrow> 'a cont \<Rightarrow> 'a cont" where
  "run (Chr P) k caps p =
     (case snd p of [] \<Rightarrow> None | c # cs \<Rightarrow> if P c then k caps (Some c, cs) else None)"
| "run Eps k caps p = k caps p"
| "run (Seq a b) k caps p = run a (run b k) caps p"
| "run (Alt a b) k caps p = orElse (run a k caps p) (run b k caps p)"
| "run (Star a) k caps p = iterG (run a) k (length (snd p)) caps p"
| "run (LazyStar a) k caps p = iterL (run a) k (length (snd p)) caps p"
| "run (Group i a) k caps p =
     run a (\<lambda>caps' p'. k (caps'(i \<mapsto> take (length (snd p) - length (snd p')) (snd p))) p') caps p"
| "run Eoi k caps p = (if snd p = [] then k caps p else None)"
| "run WordB k caps p =
     (if isWordAt (fst p) \<noteq> isWordAt (nextChar (snd p)) then k caps p else None)"

text \<open>Derived forms: \<open>r+\<close>, \<open>r?\<close>, a literal character, a literal string, and their
  case-insensitive variants (flag \<open>i\<close>: two characters match when their upper-case forms
  are equal).\<close>

definition Plus :: "regex \<Rightarrow> regex" where
  "Plus r = Seq r (Star r)"

definition Opt :: "regex \<Rightarrow> regex" where
  "Opt r = Alt r Eps"

definition Lit :: "char \<Rightarrow> regex" where
  "Lit c = Chr (\<lambda>d. d = c)"

definition LitI :: "char \<Rightarrow> regex" where
  "LitI c = Chr (\<lambda>d. toUpperChar d = toUpperChar c)"

definition Str :: "string \<Rightarrow> regex" where
  "Str s = foldr (\<lambda>c r. Seq (Lit c) r) s Eps"

definition StrI :: "string \<Rightarrow> regex" where
  "StrI s = foldr (\<lambda>c r. Seq (LitI c) r) s Eps"

definition Seqs :: "regex list \<Rightarrow> regex" where
  "Seqs rs = foldr Seq rs Eps"

definition Any :: regex where
  "Any = Chr (\<lambda>d. True)"

definition Not :: "char \<Rightarrow> regex" where
  "Not c = Chr (\<lambda>d. d \<noteq> c)"

text \<open>A match: the matched text, the captured groups, and the position after it.\<close>

record rmatch =
  whole :: string
  groups :: caps
  after :: pos

definition matchAt :: "regex \<Rightarrow> pos \<Rightarrow> rmatch option" where
  "matchAt r p =
     run r (\<lambda>caps' p'. Some \<lparr>whole = take (length (snd p) - length (snd p')) (snd p),
                              groups = caps', after = p'\<rparr>) Map.empty p"

text \<open>\<open>search\<close> is one call of \<open>exec\<close> from a position: the leftmost start at which the
  expression matches, together with the text skipped before it.\<close>

fun search :: "regex \<Rightarrow> string \<Rightarrow> char option \<Rightarrow> string \<Rightarrow> (string \<times> rmatch) option" where
  "search r skipped prev [] =
     (case matchAt r (prev, []) of None \<Rightarrow> None | Some mt \<Rightarrow> Some (rev skipped, mt))"
| "search r skipped prev (c # cs) =
     (case matchAt r (prev, c # cs) of
        None \<Rightarrow> search r (c # skipped) (Some c) cs
      | Some mt \<Rightarrow> Some (rev skipped, mt))"

text \<open>\<open>s.match(r)\<close> for an expression without the flag \<open>g\<close>.\<close>

definition match :: "regex \<Rightarrow> string \<Rightarrow> rmatch option" where
  "match r s = map_option snd (search r [] None s)"

text \<open>A scan with the flag \<open>g\<close>, as \<open>replace\<close> and \<open>match\<close> do it: the input cut into the
  texts between matches and the matches, left to right; after an empty match the scan
  moves one character on. The counter is the number of characters of the current match
  still to be passed.\<close>

datatype piece = Text char | Matched rmatch

fun pieces :: "regex \<Rightarrow> nat \<Rightarrow> char option \<Rightarrow> string \<Rightarrow> piece list" where
  "pieces r (Suc n) prev [] = []"
| "pieces r (Suc n) prev (c # cs) = pieces r n (Some c) cs"
| "pieces r 0 prev [] =
     (case matchAt r (prev, []) of None \<Rightarrow> [] | Some mt \<Rightarrow> [Matched mt])"
| "pieces r 0 prev (c # cs) =
     (case matchAt r (prev, c # cs) of
        None \<Rightarrow> Text c # pieces r 0 (Some c) cs
      | Some mt \<Rightarrow>
          (if whole mt = [] then Matched mt # Text c # pieces r 0 (Some c) cs
           else Matched mt # pieces r (length (whole mt) - 1) (Some c) cs))"

definition replaceAll :: "regex \<Rightarrow> (rmatch \<Rightarrow> string) \<Rightarrow> string \<Rightarrow> string" where
  "replaceAll r f s =
     concat (map (\<lambda>x. case x of Text c \<Rightarrow> [c] | Matched mt \<Rightarrow> f mt) (pieces r 0 None s))"

definition matchAll :: "regex \<Rightarrow> string \<Rightarrow> string list option" where
  "matchAll r s =
     (let ms = concat (map (\<lambda>x. case x of Text c \<Rightarrow> [] | Matched mt \<Rightarrow> [whole mt]) (pieces r 0 None s))
      in if ms = [] then None else Some ms)"

section \<open>Enumerated choices of an option\<close>

text \<open>\<open>extractEnumValues\<close>: the expression is \<open>/\[([^\]]+)\]/\<close>.\<close>

definition enumRegex :: regex where
  "enumRegex = Seq (Lit CHR ''['') (Seq (Group 1 (Plus (Not CHR '']''))) (Lit CHR '']''))"

definition extractEnumValues :: "string \<Rightarrow> string list option" where
  "extractEnumValues description =
     (case match enumRegex description of
        None \<Rightarrow> None
      | Some mt \<Rightarrow> (case groups mt 1 of None \<Rightarrow> None | Some g \<Rightarrow> Some (split CHR ''|'' g)))"

section \<open>Parsed help\<close>

text \<open>The entries of \<open>HelpInfo\<close>. An absent \<open>default\<close> is \<open>None\<close>; \<open>required\<close> of an
  option is optional in the source's type, and the parser always sets it.\<close>

record arg =
  argName :: string
  argType :: string
  argRequired :: bool
  argDescription :: string

record opt =
  optName :: string
  optFlag :: string
  optDescription :: string
  optDefault :: "string option"
  optRequired :: "bool option"

record helpInfo =
  args :: "arg list"
  options :: "opt list"

text \<open>Reading a property of \<open>undefined\<close> raises \<open>TypeError\<close>.\<close>

datatype error = TypeError

definition grp :: "rmatch \<Rightarrow> nat \<Rightarrow> error + string" where
  "grp mt i = (case groups mt i of None \<Rightarrow> Inl TypeError | Some s \<Rightarrow> Inr s)"

definition nonRequiredOptions :: "string list" where
  "nonRequiredOptions =
     [''help'', ''skip-cache'', ''skip-install'', ''force-install'', ''ask-answered'', ''force'',
      ''yes'', ''force-yes'', ''quiet'', ''no-color'', ''no-insight'', ''silent'']"

subsection \<open>The expressions of the parser\<close>

text \<open>\<open>/Usage:[\s\n]+yo\s+(\w+)\s+([^\n]+)/\<close>\<close>

definition usageRegex :: regex where
  "usageRegex =
     Seqs [Str ''Usage:'', Plus (Chr (\<lambda>c. isSpace c \<or> c = LF)), Str ''yo'', Plus (Chr isSpace),
           Group 1 (Plus (Chr isWord)), Plus (Chr isSpace), Group 2 (Plus (Not LF))]"

text \<open>\<open>/\[<(\w+)>\]/g\<close>, where the source also escapes the two angle brackets.\<close>

definition placeholderRegex :: regex where
  "placeholderRegex =
     Seqs [Lit CHR ''['', Lit CHR ''<'', Group 1 (Plus (Chr isWord)), Lit CHR ''>'', Lit CHR '']'']"

text \<open>\<open>/[\[\]<>]/g\<close>\<close>

definition bracketRegex :: regex where
  "bracketRegex = Chr (\<lambda>c. c \<in> set ''[]<>'')"

text \<open>The end of a section, \<open>(\n\n|\n$|$)\<close>.\<close>

definition sectionEnd :: regex where
  "sectionEnd = Alt (Str [LF, LF]) (Alt (Seq (Lit LF) Eoi) Eoi)"

text \<open>\<open>/Arguments:([^]*?)(\n\n|\n$|$)/\<close>\<close>

definition argsSectionRegex :: regex where
  "argsSectionRegex = Seqs [Str ''Arguments:'', Group 1 (LazyStar Any), Group 2 sectionEnd]"

text \<open>\<open>/\s*(\w+)\s*#\s*([^]*?)(?:\s*Type:\s*(\w+))?(?:\s*Required:\s*(true|false))?(?:\n|$)/g\<close>\<close>

definition argRegex :: regex where
  "argRegex =
     Seqs [Star (Chr isSpace), Group 1 (Plus (Chr isWord)), Star (Chr isSpace), Lit CHR ''#'',
           Star (Chr isSpace), Group 2 (LazyStar Any),
           Opt (Seqs [Star (Chr isSpace), Str ''Type:'', Star (Chr isSpace),
                      Group 3 (Plus (Chr isWord))]),
           Opt (Seqs [Star (Chr isSpace), Str ''Required:'', Star (Chr isSpace),
                      Group 4 (Alt (Str ''true'') (Str ''false''))]),
           Alt (Lit LF) Eoi]"

text \<open>\<open>/Options:([^]*?)(\n\nArguments:|\n\n|\n$|$)/\<close>\<close>

definition optionsSectionRegex :: regex where
  "optionsSectionRegex =
     Seqs [Str ''Options:'', Group 1 (LazyStar Any),
           Group 2 (Alt (Seq (Str [LF, LF]) (Str ''Arguments:'')) sectionEnd)]"

text \<open>\<open>/\s*(?:-(\w),)?\s*--(\S+)\s*#\s*([^]*?)(?:\s*Default:\s*(\S+))?(?:\n|$)/g\<close>\<close>

definition optionRegex :: regex where
  "optionRegex =
     Seqs [Star (Chr isSpace), Opt (Seqs [Lit CHR ''-'', Group 1 (Chr isWord), Lit CHR '','']),
           Star (Chr isSpace), Str ''--'', Group 2 (Plus (Chr (\<lambda>c. \<not> isSpace c))),
           Star (Chr isSpace), Lit CHR ''#'', Star (Chr isSpace), Group 3 (LazyStar Any),
           Opt (Seqs [Star (Chr isSpace), Str ''Default:'', Star (Chr isSpace),
                      Group 4 (Plus (Chr (\<lambda>c. \<not> isSpace c)))]),
           Alt (Lit LF) Eoi]"

text \<open>\<open>/(?:Questions|Prompts|Inputs):(.*?)(?:\n\n|\n$|$)/is\<close>: with the flag \<open>s\<close> the dot
  matches every character.\<close>

definition promptSectionRegex :: regex where
  "promptSectionRegex =
     Seqs [Alt (StrI ''Questions'') (Alt (StrI ''Prompts'') (StrI ''Inputs'')), LitI CHR '':'',
           Group 1 (LazyStar Any), sectionEnd]"

subsection \<open>parseGeneratorHelp\<close>

text \<open>The arguments named on the usage line, each \<open>String\<close>, optional, undescribed.\<close>

definition usageArg :: "string \<Rightarrow> arg" where
  "usageArg m =
     \<lparr>argName = replaceAll bracketRegex (\<lambda>_. []) m, argType = ''String'',
      argRequired = False, argDescription = []\<rparr>"

definition usageArgs :: "string \<Rightarrow> error + arg list" where
  "usageArgs helpOutput =
     (case match usageRegex helpOutput of
        None \<Rightarrow> Inr []
      | Some usageMatch \<Rightarrow>
          (case grp usageMatch 2 of
             Inl e \<Rightarrow> Inl e
           | Inr g \<Rightarrow>
               (case matchAll placeholderRegex (trim g) of
                  None \<Rightarrow> Inr []
                | Some argMatches \<Rightarrow> Inr (map usageArg argMatches))))"

text \<open>\<open>findIndex\<close>: the first index whose element satisfies the test.\<close>

fun findIndex :: "('a \<Rightarrow> bool) \<Rightarrow> 'a list \<Rightarrow> nat option" where
  "findIndex P [] = None"
| "findIndex P (x # xs) =
     (if P x then Some 0 else map_option Suc (findIndex P xs))"

text \<open>The body of the loop over the entries of the Arguments section. The name and the
  description are groups of the expression outside every optional part; they are read
  through \<open>grp\<close>, so that a match without them would show as an error.\<close>

definition argStep :: "rmatch \<Rightarrow> arg list \<Rightarrow> error + arg list" where
  "argStep mt as =
     (case grp mt 1 of
        Inl e \<Rightarrow> Inl e
      | Inr name \<Rightarrow>
     (case grp mt 2 of
        Inl e \<Rightarrow> Inl e
      | Inr description \<Rightarrow>
          (let type = (case groups mt 3 of None \<Rightarrow> ''String'' | Some t \<Rightarrow> t);
               required = (case groups mt 4 of None \<Rightarrow> ''false'' | Some r \<Rightarrow> r);
               entry = \<lparr>argName = name, argType = (if type = [] then ''String'' else type),
                        argRequired = (required = ''true''), argDescription = trim description\<rparr>
           in (case findIndex (\<lambda>a. argName a = name) as of
                 Some existingArgIndex \<Rightarrow> Inr (as[existingArgIndex := entry])
               | None \<Rightarrow> Inr (as @ [entry])))))"

text \<open>\<open>while ((match = argRegex.exec(argsSection)) !== null)\<close>: every call of \<open>exec\<close>
  starts where the last match ended. The loop is a partial function: \<open>None\<close> is a
  loop that does not end.\<close>

partial_function (option) argLoop :: "pos \<Rightarrow> arg list \<Rightarrow> (error + arg list) option" where
  "argLoop p as =
     (case search argRegex [] (fst p) (snd p) of
        None \<Rightarrow> Some (Inr as)
      | Some sm \<Rightarrow>
          (case argStep (snd sm) as of
             Inl e \<Rightarrow> Some (Inl e)
           | Inr as' \<Rightarrow> argLoop (after (snd sm)) as'))"

declare argLoop.simps [code]

definition parseArgs :: "string \<Rightarrow> arg list \<Rightarrow> (error + arg list) option" where
  "parseArgs helpOutput as =
     (case match argsSectionRegex helpOutput of
        None \<Rightarrow> Some (Inr as)
      | Some argsMatch \<Rightarrow>
          (case grp argsMatch 1 of
             Inl e \<Rightarrow> Some (Inl e)
           | Inr argsSection \<Rightarrow> argLoop (None, argsSection) as))"

text \<open>The body of the loop over the entries of the Options section; the name and the
  description are read through \<open>grp\<close> as above.\<close>

definition optionStep :: "rmatch \<Rightarrow> opt list \<Rightarrow> error + opt list" where
  "optionStep mt os =
     (case grp mt 2 of
        Inl e \<Rightarrow> Inl e
      | Inr name \<Rightarrow>
     (case grp mt 3 of
        Inl e \<Rightarrow> Inl e
      | Inr description \<Rightarrow>
          (let isRequired =
                 (includesStr description ''(Required)'' \<or>
                  includesStr description ''[Required]'' \<or>
                  includesStr description ''required'' \<or>
                  \<not> includesStr description ''Optional'');
               isRequired = (if name \<in> set nonRequiredOptions then False else isRequired)
           in Inr (os @ [\<lparr>optName = name,
                           optFlag = (case groups mt 1 of None \<Rightarrow> [] | Some f \<Rightarrow> f),
                           optDescription = trim description,
                           optDefault = groups mt 4,
                           optRequired = Some isRequired\<rparr>]))))"

partial_function (option) optionLoop :: "pos \<Rightarrow> opt list \<Rightarrow> (error + opt list) option" where
  "optionLoop p os =
     (case search optionRegex [] (fst p) (snd p) of
        None \<Rightarrow> Some (Inr os)
      | Some sm \<Rightarrow>
          (case optionStep (snd sm) os of
             Inl e \<Rightarrow> Some (Inl e)
           | Inr os' \<Rightarrow> optionLoop (after (snd sm)) os'))"

declare optionLoop.simps [code]

definition parseOptions :: "string \<Rightarrow> (error + opt list) option" where
  "parseOptions helpOutput =
     (case match optionsSectionRegex helpOutput of
        None \<Rightarrow> Some (Inr [])
      | Some optionsMatch \<Rightarrow>
          (case grp optionsMatch 1 of
             Inl e \<Rightarrow> Some (Inl e)
           | Inr optionsSection \<Rightarrow> optionLoop (None, optionsSection) []))"

text \<open>The pass over the options when the help has a Questions, Prompts or Inputs section.\<close>

definition promptMark :: "string \<Rightarrow> opt \<Rightarrow> opt" where
  "promptMark promptSection option =
     (if optName option \<in> set nonRequiredOptions then option\<lparr>optRequired := Some False\<rparr>
      else if includesStr promptSection (optName option) then option\<lparr>optRequired := Some True\<rparr>
      else option)"

definition applyPrompts :: "string \<Rightarrow> opt list \<Rightarrow> error + opt list" where
  "applyPrompts helpOutput os =
     (case match promptSectionRegex helpOutput of
        None \<Rightarrow> Inr os
      | Some promptMatch \<Rightarrow>
          (case grp promptMatch 1 of
             Inl e \<Rightarrow> Inl e
           | Inr promptSection \<Rightarrow> Inr (map (promptMark promptSection) os)))"

definition parseGeneratorHelp :: "string \<Rightarrow> (error + helpInfo) option" where
  "parseGeneratorHelp helpOutput =
     (case usageArgs helpOutput of
        Inl e \<Rightarrow> Some (Inl e)
      | Inr as0 \<Rightarrow>
     (case parseArgs helpOutput as0 of
        None \<Rightarrow> None
      | Some (Inl e) \<Rightarrow> Some (Inl e)
      | Some (Inr as) \<Rightarrow>
     (case parseOptions helpOutput of
        None \<Rightarrow> None
      | Some (Inl e) \<Rightarrow> Some (Inl e)
      | Some (Inr os0) \<Rightarrow>
     (case applyPrompts helpOutput os0 of
        Inl e \<Rightarrow> Some (Inl e)
      | Inr os \<Rightarrow> Some (Inr \<lparr>args = as, options = os\<rparr>)))))"

section \<open>Required options\<close>

text \<open>\<open>/\b(enter|specify|provide)\b/i\<close>\<close>

definition promptVerbRegex :: regex where
  "promptVerbRegex =
     Seqs [WordB, Group 1 (Alt (StrI ''enter'') (Alt (StrI ''specify'') (StrI ''provide''))), WordB]"

definition likelyRequiredOptionPatterns :: "string list" where
  "likelyRequiredOptionPatterns =
     [''username'', ''name'', ''email'', ''author'', ''css'', ''style'', ''client'', ''graphql'']"

definition isOptionRequired :: "opt \<Rightarrow> bool" where
  "isOptionRequired option =
     (if optRequired option = Some True then True
      else if optDefault option \<noteq> None then False
      else if includesStr (optDescription option) ''Default:'' then False
      else if optName option \<in> set nonRequiredOptions then False
      else if \<exists>pattern \<in> set likelyRequiredOptionPatterns.
                includesStr (toLowerCase (optName option)) pattern then True
      else if includesStr (optDescription option) ''?'' \<or>
              match promptVerbRegex (optDescription option) \<noteq> None then True
      else (case extractEnumValues (optDescription option) of
              Some enumValues \<Rightarrow> 0 < length enumValues
            | None \<Rightarrow> False))"

section \<open>Option values\<close>

text \<open>
  The values of \<open>Record<string, any>\<close>, as far as the code tells them apart. \<open>JNum\<close> is
  a number, given by the text that the language's number-to-string conversion yields for
  it (\<open>0\<close> for both zeros, \<open>NaN\<close>, \<open>1e+21\<close>): the code only tests a number for
  truthiness and converts it to a string. \<open>JObject\<close> is an object or an array, with the
  text of its string conversion, \<open>None\<close> when that conversion raises \<open>TypeError\<close>. An
  object is the list of its own properties in enumeration order. Reading a property that
  the object does not own finds the members that every object inherits; they are
  functions and objects, of which the code reads the truthiness only.
\<close>

datatype jsval =
  JUndefined | JNull | JBool bool | JNum string | JStr string | JObject "string option"

type_synonym jsobject = "(string \<times> jsval) list"

definition truthy :: "jsval \<Rightarrow> bool" where
  "truthy v =
     (case v of JUndefined \<Rightarrow> False | JNull \<Rightarrow> False | JBool b \<Rightarrow> b
      | JNum t \<Rightarrow> t \<noteq> ''0'' \<and> t \<noteq> ''NaN''
      | JStr t \<Rightarrow> t \<noteq> [] | JObject t \<Rightarrow> True)"

definition objectPrototype :: "string list" where
  "objectPrototype =
     [''constructor'', ''hasOwnProperty'', ''isPrototypeOf'', ''propertyIsEnumerable'',
      ''toLocaleString'', ''toString'', ''valueOf'', ''__defineGetter__'', ''__defineSetter__'',
      ''__lookupGetter__'', ''__lookupSetter__'', ''__proto__'']"

definition getProp :: "jsobject \<Rightarrow> string \<Rightarrow> jsval" where
  "getProp obj key =
     (case map_of obj key of
        Some v \<Rightarrow> v
      | None \<Rightarrow> if key \<in> set objectPrototype then JObject (Some ''[object]'') else JUndefined)"

text \<open>The string conversion of a template literal, \<open>`${value}`\<close>.\<close>

definition toStr :: "jsval \<Rightarrow> error + string" where
  "toStr v =
     (case v of JUndefined \<Rightarrow> Inr ''undefined'' | JNull \<Rightarrow> Inr ''null''
      | JBool b \<Rightarrow> Inr (if b then ''true'' else ''false'')
      | JNum t \<Rightarrow> Inr t
      | JStr t \<Rightarrow> Inr t
      | JObject t \<Rightarrow> (case t of None \<Rightarrow> Inl TypeError | Some text \<Rightarrow> Inr text))"

section \<open>checkRequiredArguments\<close>

record missingArg =
  maName :: string
  maDescription :: string

record missingOpt =
  moName :: string
  moDescription :: string
  moEnumValues :: "string list option"

record checkResult =
  missingRequired :: "missingArg list"
  missingOptions :: "missingOpt list"
  defaultOptions :: jsobject

text \<open>\<open>kebabName.replace(/-([a-z])/g, g => g[1].toUpperCase())\<close>: \<open>g\<close> is the matched
  text, two characters long.\<close>

definition camelRegex :: regex where
  "camelRegex = Seq (Lit CHR ''-'') (Group 1 (Chr isLower))"

definition camelName :: "string \<Rightarrow> string" where
  "camelName kebabName =
     replaceAll camelRegex (\<lambda>g. toUpperCase (take 1 (drop 1 (whole g)))) kebabName"

definition checkArg :: "string list \<Rightarrow> checkResult \<Rightarrow> nat \<times> arg \<Rightarrow> checkResult" where
  "checkArg providedArgs result ia =
     (case ia of (index, arg) \<Rightarrow>
        if argRequired arg \<and> length providedArgs \<le> index
        then result\<lparr>missingRequired := missingRequired result @
                      [\<lparr>maName = argName arg, maDescription = argDescription arg\<rparr>]\<rparr>
        else result)"

definition checkOption :: "jsobject \<Rightarrow> checkResult \<Rightarrow> opt \<Rightarrow> checkResult" where
  "checkOption providedOptions result option =
     (let kebabName = optName option;
          camel = camelName kebabName;
          isRequired = isOptionRequired option;
          enumValues = extractEnumValues (optDescription option)
      in if (case enumValues of None \<Rightarrow> False | Some vs \<Rightarrow> 0 < length vs) \<and>
            \<not> truthy (getProp providedOptions kebabName) \<and>
            \<not> truthy (getProp providedOptions camel)
         then (if isRequired
               then result\<lparr>missingOptions := missingOptions result @
                      [\<lparr>moName = kebabName, moDescription = optDescription option,
                        moEnumValues = enumValues\<rparr>]\<rparr>
               else result)
         else if isRequired \<and> \<not> truthy (getProp providedOptions kebabName) \<and>
                 \<not> truthy (getProp providedOptions camel)
         then result\<lparr>missingOptions := missingOptions result @
                      [\<lparr>moName = kebabName, moDescription = optDescription option,
                        moEnumValues = None\<rparr>]\<rparr>
         else result)"

definition checkRequiredArguments :: "helpInfo \<Rightarrow> string list \<Rightarrow> jsobject \<Rightarrow> checkResult" where
  "checkRequiredArguments info providedArgs providedOptions =
     (let result = \<lparr>missingRequired = [], missingOptions = [], defaultOptions = []\<rparr>;
          result = foldl (checkArg providedArgs) result (enumerate 0 (args info));
          result = foldl (checkOption providedOptions) result (options info)
      in result)"

section \<open>Running a generator\<close>

subsection \<open>The command line\<close>

text \<open>The loop over \<open>Object.entries(options)\<close>: \<open>true\<close> gives a bare flag, \<open>false\<close>,
  \<open>undefined\<close> and \<open>null\<close> give nothing, every other value gives \<open>--key=value\<close>. A
  value whose string conversion raises ends the loop with the error; the caller then
  returns its \<open>Unexpected error\<close> result and no process is started.\<close>

definition pushOption :: "string list \<Rightarrow> string \<times> jsval \<Rightarrow> error + string list" where
  "pushOption yoArgs kv =
     (case kv of (key, v) \<Rightarrow>
        if v = JBool True then Inr (yoArgs @ [''--'' @ key])
        else if v \<noteq> JBool False \<and> v \<noteq> JUndefined \<and> v \<noteq> JNull
        then (case toStr v of
                Inl e \<Rightarrow> Inl e
              | Inr text \<Rightarrow> Inr (yoArgs @ [''--'' @ key @ ''='' @ text]))
        else Inr yoArgs)"

fun pushOptions :: "string list \<Rightarrow> jsobject \<Rightarrow> error + string list" where
  "pushOptions yoArgs [] = Inr yoArgs"
| "pushOptions yoArgs (kv # rest) =
     (case pushOption yoArgs kv of
        Inl e \<Rightarrow> Inl e
      | Inr yoArgs' \<Rightarrow> pushOptions yoArgs' rest)"

definition nonInteractiveFlags :: "string list" where
  "nonInteractiveFlags =
     [''--no-insight'', ''--no-color'', ''--force-yes'', ''--yes'', ''--skip-install'',
      ''--skip-cache'', ''--skip-prompts'', ''--quiet'', ''--no-interactive'']"

definition pushFlag :: "string list \<Rightarrow> string \<Rightarrow> string list" where
  "pushFlag yoArgs flag = (if flag \<in> set yoArgs then yoArgs else yoArgs @ [flag])"

definition yoArgs :: "string \<Rightarrow> string \<Rightarrow> jsobject \<Rightarrow> string list \<Rightarrow> error + string list" where
  "yoArgs cliYoPath generatorName opts as =
     (case pushOptions ([cliYoPath, generatorName] @ as) opts of
        Inl e \<Rightarrow> Inl e
      | Inr withOptions \<Rightarrow> Inr (foldl pushFlag withOptions nonInteractiveFlags))"

subsection \<open>cleanOutput\<close>

text \<open>\<open>/\u001b\[\d+m/g\<close>, \<open>/\u001b\[\?25[hl]/g\<close>, \<open>/\u001b\[\d+[A-Z]/g\<close>, \<open>/\r\n/g\<close>,
  \<open>/\r/g\<close> and \<open>/\n{3,}/g\<close>.\<close>

definition colorRegex :: regex where
  "colorRegex = Seqs [Lit ESC, Lit CHR ''['', Plus (Chr isDigit), Lit CHR ''m'']"

definition cursorVisibilityRegex :: regex where
  "cursorVisibilityRegex =
     Seqs [Lit ESC, Lit CHR ''['', Lit CHR ''?'', Str ''25'', Chr (\<lambda>c. c \<in> set ''hl'')]"

definition cursorMoveRegex :: regex where
  "cursorMoveRegex = Seqs [Lit ESC, Lit CHR ''['', Plus (Chr isDigit), Chr isUpper]"

definition crlfRegex :: regex where
  "crlfRegex = Seq (Lit CR) (Lit LF)"

definition newlinesRegex :: regex where
  "newlinesRegex = Seqs [Lit LF, Lit LF, Lit LF, Star (Lit LF)]"

definition cleanOutput :: "string \<Rightarrow> string" where
  "cleanOutput output =
     replaceAll newlinesRegex (\<lambda>_. [LF, LF])
       (replaceAll (Lit CR) (\<lambda>_. [LF])
         (replaceAll crlfRegex (\<lambda>_. [LF])
           (replaceAll cursorMoveRegex (\<lambda>_. [])
             (replaceAll cursorVisibilityRegex (\<lambda>_. [])
               (replaceAll colorRegex (\<lambda>_. []) output)))))"

subsection \<open>The outcome of a run\<close>

text \<open>What the \<open>close\<close> event of the child process resolves to: \<open>success\<close> is exit code 0
  (the code is \<open>null\<close> when a signal ended the process), \<open>output\<close> is everything written to
  standard output and standard error.\<close>

record procResult =
  prSuccess :: bool
  prOutput :: string

definition onClose :: "int option \<Rightarrow> string \<Rightarrow> procResult" where
  "onClose exitCode output = \<lparr>prSuccess = (exitCode = Some 0), prOutput = output\<rparr>"

text \<open>The result objects that \<open>runYeomanGenerator\<close> returns once the process has ended,
  one constructor for each \<open>return\<close>, with the fields of the object.\<close>

datatype runResult =
    NotFound string string "string list"
  | StillInteractive string string "string list" "string list"
  | InvalidVersionFormat string string "string list"
  | GenericFailure string string
  | Success string bool bool

fun success :: "runResult \<Rightarrow> bool" where
  "success (NotFound err out sugg) = False"
| "success (StillInteractive err out prompts sugg) = False"
| "success (InvalidVersionFormat err out sugg) = False"
| "success (GenericFailure err out) = False"
| "success (Success out generatorRan cfg) = True"

text \<open>\<open>/\?\s+[\w\s]+/g\<close>, \<open>/>\s+[\w\s]+/g\<close>, and the two with \<open>[^\n]*\<close> appended that
  collect the prompt lines.\<close>

definition promptTail :: regex where
  "promptTail = Seq (Plus (Chr isSpace)) (Plus (Chr (\<lambda>c. isWord c \<or> isSpace c)))"

definition questionRegex :: regex where
  "questionRegex = Seq (Lit CHR ''?'') promptTail"

definition selectionRegex :: regex where
  "selectionRegex = Seq (Lit CHR ''>'') promptTail"

definition questionLineRegex :: regex where
  "questionLineRegex = Seqs [Lit CHR ''?'', promptTail, Star (Not LF)]"

definition selectionLineRegex :: regex where
  "selectionLineRegex = Seqs [Lit CHR ''>'', promptTail, Star (Not LF)]"

definition hasPrompts :: "string \<Rightarrow> bool" where
  "hasPrompts output =
     (includesStr output ''?'' \<and>
      (matchAll questionRegex output \<noteq> None \<or> matchAll selectionRegex output \<noteq> None))"

definition orEmpty :: "'a list option \<Rightarrow> 'a list" where
  "orEmpty xs = (case xs of None \<Rightarrow> [] | Some ys \<Rightarrow> ys)"

definition promptLines :: "string \<Rightarrow> string list" where
  "promptLines output =
     map trim (orEmpty (matchAll questionLineRegex output) @
               orEmpty (matchAll selectionLineRegex output))"

definition getGeneratorKey :: "string \<Rightarrow> string" where
  "getGeneratorKey generatorName = ''generator-'' @ generatorName"

text \<open>\<open>yoRc\<close> is the content of \<open>.yo-rc.json\<close> in the working directory: \<open>None\<close> when the
  file is missing or cannot be read as an object.\<close>

definition generatorConfigExists :: "string \<Rightarrow> jsobject option \<Rightarrow> bool" where
  "generatorConfigExists generatorName yoRc =
     (case yoRc of None \<Rightarrow> False | Some rc \<Rightarrow> truthy (getProp rc (getGeneratorKey generatorName)))"

definition runOutcome :: "string \<Rightarrow> jsobject option \<Rightarrow> procResult \<Rightarrow> runResult" where
  "runOutcome generatorName yoRc result =
     (if includesStr (prOutput result) ''Did not find a suitable generator''
      then NotFound (''Generator '' @ [CHR 0x27] @ generatorName @ [CHR 0x27] @ '' not found'')
             (cleanOutput (prOutput result))
             [''Make sure generator-'' @ generatorName @ '' exists on npm'']
      else if hasPrompts (prOutput result)
      then StillInteractive ''Generator entered interactive mode - missing required options''
             (cleanOutput (prOutput result))
             (promptLines (prOutput result))
             ([''The generator is trying to prompt for input. Please provide all required options:'']
              @ map (\<lambda>line. ''- '' @ line) (promptLines (prOutput result))
              @ [''Run with --help to see all available options''])
      else if includesStr (prOutput result) ''Invalid version format''
      then InvalidVersionFormat ''Invalid version format provided''
             (cleanOutput (prOutput result))
             [''Version should follow semantic versioning (e.g., '' @ [CHR 0x22] @ ''1.0.0'' @ [CHR 0x22] @ '')'',
              ''Make sure your arguments are in the correct order'']
      else if \<not> prSuccess result
      then GenericFailure ''Generator failed to run successfully'' (cleanOutput (prOutput result))
      else Success (cleanOutput (prOutput result)) True
             (generatorConfigExists generatorName yoRc))"

section \<open>The yeoman_generate request\<close>

text \<open>The parsed request: \<open>options\<close> and \<open>args\<close> are optional and default to the empty
  object and the empty array.\<close>

record generateRequest =
  reqGeneratorName :: string
  reqOptions :: "jsobject option"
  reqCwd :: string
  reqArgs :: "string list option"
  reqAppName :: string
  reqVersion :: string

definition forcedOptions :: "string list" where
  "forcedOptions =
     [''skip-install'', ''skip-cache'', ''force-yes'', ''yes'', ''no-insight'', ''no-color'', ''quiet'']"

text \<open>The object literal \<open>{...options, 'skip-install': true, ...}\<close>: a key that the
  caller's object has keeps its place and takes the new value, a new key goes to the end.\<close>

definition mergedOptions :: "jsobject \<Rightarrow> jsobject" where
  "mergedOptions opts = foldl (\<lambda>obj key. AList.update key (JBool True) obj) opts forcedOptions"

definition allPositionalArgs :: "string \<Rightarrow> string \<Rightarrow> string list \<Rightarrow> string list" where
  "allPositionalArgs appName version positionalArgs =
     (let as = positionalArgs;
          as = (if version \<noteq> [] then version # as else as);
          as = (if appName \<noteq> [] then appName # as else as)
      in as)"

text \<open>The arguments of the call \<open>runYeomanGenerator(generatorName, mergedOptions, cwd,
  allPositionalArgs)\<close>.\<close>

record generatorCall =
  callGeneratorName :: string
  callOptions :: jsobject
  callCwd :: string
  callArgs :: "string list"

definition generateCall :: "generateRequest \<Rightarrow> generatorCall" where
  "generateCall req =
     \<lparr>callGeneratorName = reqGeneratorName req,
      callOptions = mergedOptions (case reqOptions req of None \<Rightarrow> [] | Some opts \<Rightarrow> opts),
      callCwd = reqCwd req,
      callArgs = allPositionalArgs (reqAppName req) (reqVersion req)
                   (case reqArgs req of None \<Rightarrow> [] | Some as \<Rightarrow> as)\<rparr>"

section \<open>Notions for the statements and proofs\<close>

text \<open>What every match of an expression is sure of: the least number of characters it
  consumes, and the groups it sets.\<close>

primrec minLen :: "regex \<Rightarrow> nat" where
  "minLen (Chr P) = 1"
| "minLen Eps = 0"
| "minLen (Seq a b) = minLen a + minLen b"
| "minLen (Alt a b) = min (minLen a) (minLen b)"
| "minLen (Star a) = 0"
| "minLen (LazyStar a) = 0"
| "minLen (Group i a) = minLen a"
| "minLen Eoi = 0"
| "minLen WordB = 0"

primrec sets :: "regex \<Rightarrow> nat set" where
  "sets (Chr P) = {}"
| "sets Eps = {}"
| "sets (Seq a b) = sets a \<union> sets b"
| "sets (Alt a b) = sets a \<inter> sets b"
| "sets (Star a) = {}"
| "sets (LazyStar a) = {}"
| "sets (Group i a) = insert i (sets a)"
| "sets Eoi = {}"
| "sets WordB = {}"

text \<open>A continuation \<open>k\<close> answers \<open>x\<close> somewhere at or after \<open>p\<close>: at least \<open>n\<close>
  characters further, with the groups of \<open>caps\<close> and of \<open>G\<close> set.\<close>

definition reaches :: "'a cont \<Rightarrow> 'a \<Rightarrow> caps \<Rightarrow> pos \<Rightarrow> nat \<Rightarrow> nat set \<Rightarrow> bool" where
  "reaches k x caps p n G =
     (\<exists>caps' p'. k caps' p' = Some x \<and> length (snd p') + n \<le> length (snd p) \<and>
                 dom caps \<union> G \<subseteq> dom caps')"

text \<open>The character before the position reached after reading \<open>t\<close>.\<close>

definition prevAfter :: "char option \<Rightarrow> string \<Rightarrow> char option" where
  "prevAfter pv t = (if t = [] then pv else Some (last t))"

text \<open>The content of the first bracket group of a text: a \<open>[\<close>, then one or more
  characters other than \<open>]\<close>, then \<open>]\<close>.\<close>

fun firstBracketed :: "string \<Rightarrow> string option" where
  "firstBracketed [] = None"
| "firstBracketed (c # cs) =
     (if c = CHR ''['' \<and> takeWhile (\<lambda>x. x \<noteq> CHR '']'') cs \<noteq> [] \<and>
         dropWhile (\<lambda>x. x \<noteq> CHR '']'') cs \<noteq> []
      then Some (takeWhile (\<lambda>x. x \<noteq> CHR '']'') cs)
      else firstBracketed cs)"

text \<open>Every deny-listed option of a list is marked not required.\<close>

definition denied :: "opt list \<Rightarrow> bool" where
  "denied os =
     (\<forall>option \<in> set os.
        optName option \<in> set nonRequiredOptions \<longrightarrow> optRequired option = Some False)"

text \<open>A help text with three options: a deny-listed one whose description says
  \<open>required\<close>, one marked \<open>(Required)\<close> with a default, one marked \<open>Optional\<close> with a
  default.\<close>

definition sampleHelp :: string where
  "sampleHelp =
     ''Options: --quiet # required'' @ [LF] @
     '' --mode # (Required) Default: x'' @ [LF] @
     '' --tag # Optional Default: y''"

text \<open>Two more help texts, of one option each: one with a default and no word on
  whether it is required, one whose description ends in a bracketed word.\<close>

definition portHelp :: string where
  "portHelp = ''Options: --port # Port number Default: 8080''"

definition babelHelp :: string where
  "babelHelp = ''Options: --babel # Use Babel [Optional]''"

text \<open>What the requirement check reports: an argument that is required and whose index
  is not below the number of provided arguments; an option that is classified required
  and for which reading the provided options finds no truthy value, neither under its
  name nor under the camel-cased name.\<close>

definition argMissing :: "string list \<Rightarrow> nat \<times> arg \<Rightarrow> bool" where
  "argMissing providedArgs ia = (argRequired (snd ia) \<and> length providedArgs \<le> fst ia)"

definition optionMissing :: "jsobject \<Rightarrow> opt \<Rightarrow> bool" where
  "optionMissing providedOptions option =
     (isOptionRequired option \<and>
      \<not> truthy (getProp providedOptions (optName option)) \<and>
      \<not> truthy (getProp providedOptions (camelName (optName option))))"

definition argReport :: "nat \<times> arg \<Rightarrow> missingArg" where
  "argReport ia = \<lparr>maName = argName (snd ia), maDescription = argDescription (snd ia)\<rparr>"

definition optionReport :: "opt \<Rightarrow> missingOpt" where
  "optionReport option =
     \<lparr>moName = optName option, moDescription = optDescription option,
      moEnumValues = extractEnumValues (optDescription option)\<rparr>"

section \<open>What a match is sure of\<close>

lemma reachesI:
  "k caps' p' = Some x \<Longrightarrow> length (snd p') + n \<le> length (snd p) \<Longrightarrow>
   dom caps \<union> G \<subseteq> dom caps' \<Longrightarrow> reaches k x caps p n G"
  unfolding reaches_def by blast

lemma reaches_weaken:
  "reaches k x caps p n G \<Longrightarrow> m \<le> n \<Longrightarrow> H \<subseteq> G \<Longrightarrow> reaches k x caps p m H"
  unfolding reaches_def by fastforce

lemma orElse_Some: "orElse a b = Some x \<Longrightarrow> a = Some x \<or> b = Some x"
  by (auto simp: orElse_def split: option.splits)

lemma iterG_sound:
  assumes f: "\<And>k caps p x. f k caps p = Some x \<Longrightarrow> reaches k x caps p 0 {}"
  shows "iterG f k n caps p = Some x \<Longrightarrow> reaches k x caps p 0 {}"
proof (induction n arbitrary: caps p)
  case 0
  then show ?case by (auto intro: reachesI)
next
  case (Suc n)
  from Suc.prems have "f (progress p (iterG f k n)) caps p = Some x \<or> k caps p = Some x"
    by (auto dest: orElse_Some)
  then show ?case
  proof
    assume "f (progress p (iterG f k n)) caps p = Some x"
    from f[OF this] obtain caps1 p1 where
      1: "progress p (iterG f k n) caps1 p1 = Some x" "length (snd p1) \<le> length (snd p)"
         "dom caps \<subseteq> dom caps1"
      unfolding reaches_def by auto
    then have "iterG f k n caps1 p1 = Some x"
      by (auto simp: progress_def split: if_splits)
    from Suc.IH[OF this] obtain caps2 p2 where
      "k caps2 p2 = Some x" "length (snd p2) \<le> length (snd p1)" "dom caps1 \<subseteq> dom caps2"
      unfolding reaches_def by auto
    with 1 show ?thesis by (intro reachesI[of k caps2 p2]) auto
  next
    assume "k caps p = Some x"
    then show ?thesis by (auto intro: reachesI)
  qed
qed

lemma iterL_sound:
  assumes f: "\<And>k caps p x. f k caps p = Some x \<Longrightarrow> reaches k x caps p 0 {}"
  shows "iterL f k n caps p = Some x \<Longrightarrow> reaches k x caps p 0 {}"
proof (induction n arbitrary: caps p)
  case 0
  then show ?case by (auto intro: reachesI)
next
  case (Suc n)
  from Suc.prems have "k caps p = Some x \<or> f (progress p (iterL f k n)) caps p = Some x"
    by (auto dest: orElse_Some)
  then show ?case
  proof
    assume "f (progress p (iterL f k n)) caps p = Some x"
    from f[OF this] obtain caps1 p1 where
      1: "progress p (iterL f k n) caps1 p1 = Some x" "length (snd p1) \<le> length (snd p)"
         "dom caps \<subseteq> dom caps1"
      unfolding reaches_def by auto
    then have "iterL f k n caps1 p1 = Some x"
      by (auto simp: progress_def split: if_splits)
    from Suc.IH[OF this] obtain caps2 p2 where
      "k caps2 p2 = Some x" "length (snd p2) \<le> length (snd p1)" "dom caps1 \<subseteq> dom caps2"
      unfolding reaches_def by auto
    with 1 show ?thesis by (intro reachesI[of k caps2 p2]) auto
  next
    assume "k caps p = Some x"
    then show ?thesis by (auto intro: reachesI)
  qed
qed

lemma run_sound:
  "run r k caps p = Some x \<Longrightarrow> reaches k x caps p (minLen r) (sets r)"
proof (induction r arbitrary: k caps p x)
  case (Chr P)
  then show ?case
    by (cases p) (auto split: list.splits if_splits intro!: reachesI)
next
  case Eps
  then show ?case by (auto intro: reachesI)
next
  case (Seq a b)
  from Seq.prems have "run a (run b k) caps p = Some x" by simp
  from Seq.IH(1)[OF this] obtain caps1 p1 where
    1: "run b k caps1 p1 = Some x" "length (snd p1) + minLen a \<le> length (snd p)"
       "dom caps \<union> sets a \<subseteq> dom caps1"
    unfolding reaches_def by auto
  from Seq.IH(2)[OF 1(1)] obtain caps2 p2 where
    2: "k caps2 p2 = Some x" "length (snd p2) + minLen b \<le> length (snd p1)"
       "dom caps1 \<union> sets b \<subseteq> dom caps2"
    unfolding reaches_def by auto
  have "dom caps \<union> sets (Seq a b) \<subseteq> dom caps2"
    using 1(3) 2(3) by (simp only: sets.simps) blast
  moreover have "length (snd p2) + minLen (Seq a b) \<le> length (snd p)"
    using 1(2) 2(2) by simp
  ultimately show ?case using 2(1) by (rule_tac reachesI[of k caps2 p2])
next
  case (Alt a b)
  from Alt.prems have "run a k caps p = Some x \<or> run b k caps p = Some x"
    by (auto dest: orElse_Some)
  then show ?case
  proof
    assume "run a k caps p = Some x"
    from Alt.IH(1)[OF this] show ?thesis by (rule reaches_weaken) simp_all
  next
    assume "run b k caps p = Some x"
    from Alt.IH(2)[OF this] show ?thesis by (rule reaches_weaken) simp_all
  qed
next
  case (Star a)
  have "reaches k x caps p 0 {}"
  proof (rule iterG_sound[where f = "run a"])
    fix k' caps' p' x'
    assume "run a k' caps' p' = Some (x' :: 'a)"
    from Star.IH[OF this] show "reaches k' x' caps' p' 0 {}"
      by (rule reaches_weaken) simp_all
  next
    show "iterG (run a) k (length (snd p)) caps p = Some x"
      using Star.prems by simp
  qed
  then show ?case by simp
next
  case (LazyStar a)
  have "reaches k x caps p 0 {}"
  proof (rule iterL_sound[where f = "run a"])
    fix k' caps' p' x'
    assume "run a k' caps' p' = Some (x' :: 'a)"
    from LazyStar.IH[OF this] show "reaches k' x' caps' p' 0 {}"
      by (rule reaches_weaken) simp_all
  next
    show "iterL (run a) k (length (snd p)) caps p = Some x"
      using LazyStar.prems by simp
  qed
  then show ?case by simp
next
  case (Group i a)
  let ?k = "\<lambda>caps' p'. k (caps'(i \<mapsto> take (length (snd p) - length (snd p')) (snd p))) p'"
  from Group.prems have "run a ?k caps p = Some x" by simp
  from Group.IH[OF this] obtain caps1 p1 where
    1: "?k caps1 p1 = Some x" "length (snd p1) + minLen a \<le> length (snd p)"
       "dom caps \<union> sets a \<subseteq> dom caps1"
    unfolding reaches_def by auto
  then show ?case
    by (intro reachesI[of k "caps1(i \<mapsto> take (length (snd p) - length (snd p1)) (snd p))" p1]) auto
next
  case Eoi
  then show ?case by (auto split: if_splits intro: reachesI)
next
  case WordB
  then show ?case by (auto split: if_splits intro: reachesI)
qed

lemma matchAt_sound:
  assumes "matchAt r p = Some mt"
  shows "length (snd (after mt)) + minLen r \<le> length (snd p)" and "sets r \<subseteq> dom (groups mt)"
proof -
  from run_sound[OF assms[unfolded matchAt_def]]
  obtain caps' p' where
    "Some \<lparr>whole = take (length (snd p) - length (snd p')) (snd p), groups = caps', after = p'\<rparr> = Some mt"
    "length (snd p') + minLen r \<le> length (snd p)" "sets r \<subseteq> dom caps'"
    unfolding reaches_def by auto
  then show "length (snd (after mt)) + minLen r \<le> length (snd p)" and "sets r \<subseteq> dom (groups mt)"
    by auto
qed

lemma search_sound:
  "search r sk pv s = Some (skipped, mt) \<Longrightarrow>
   length (snd (after mt)) + minLen r \<le> length s \<and> sets r \<subseteq> dom (groups mt)"
proof (induction s arbitrary: sk pv)
  case Nil
  then show ?case
    using matchAt_sound[of r "(pv, [])" mt] by (auto split: option.splits)
next
  case (Cons c cs)
  show ?case
  proof (cases "matchAt r (pv, c # cs)")
    case None
    with Cons.prems have "search r (c # sk) (Some c) cs = Some (skipped, mt)" by simp
    from Cons.IH[OF this] show ?thesis by auto
  next
    case (Some m)
    with Cons.prems have "m = mt" by simp
    with Some matchAt_sound[of r "(pv, c # cs)" mt] show ?thesis by auto
  qed
qed

lemma minLen_Str [simp]: "minLen (Str t) = length t"
  by (induction t) (simp_all add: Str_def Lit_def)

lemma sets_Str [simp]: "sets (Str t) = {}"
  by (induction t) (simp_all add: Str_def Lit_def)

lemma minLen_StrI [simp]: "minLen (StrI t) = length t"
  by (induction t) (simp_all add: StrI_def LitI_def)

lemma sets_StrI [simp]: "sets (StrI t) = {}"
  by (induction t) (simp_all add: StrI_def LitI_def)

lemma minLen_Seqs [simp]: "minLen (Seqs rs) = sum_list (map minLen rs)"
  by (induction rs) (simp_all add: Seqs_def)

lemma sets_Seqs [simp]: "sets (Seqs rs) = \<Union> (set (map sets rs))"
  by (induction rs) (simp_all add: Seqs_def)

lemma minLen_derived [simp]:
  "minLen (Plus r) = minLen r" "minLen (Opt r) = 0" "minLen (Lit c) = 1" "minLen (LitI c) = 1"
  "minLen Any = 1" "minLen (Not c) = 1"
  by (simp_all add: Plus_def Opt_def Lit_def LitI_def Any_def Not_def)

lemma sets_derived [simp]:
  "sets (Plus r) = sets r" "sets (Opt r) = {}" "sets (Lit c) = {}" "sets (LitI c) = {}"
  "sets Any = {}" "sets (Not c) = {}"
  by (simp_all add: Plus_def Opt_def Lit_def LitI_def Any_def Not_def)


lemma optionRegex_facts: "1 \<le> minLen optionRegex" "{2, 3} \<subseteq> sets optionRegex"
  by (simp_all add: optionRegex_def)



section \<open>Properties of the help parser\<close>














lemma includesStr_suffix: "prefix t s' \<Longrightarrow> suffix s' s \<Longrightarrow> includesStr s t"
proof (induction s)
  case Nil
  then show ?case by simp
next
  case (Cons c cs)
  then show ?case by (auto simp: suffix_Cons)
qed









lemma optionStep_denied: "optionStep mt os = Inr os' \<Longrightarrow> denied os \<Longrightarrow> denied os'"
  by (auto simp: optionStep_def denied_def Let_def split: sum.splits)

lemma optionLoop_denied: "optionLoop p os = Some (Inr r) \<Longrightarrow> denied os \<Longrightarrow> denied r"
proof (induction "length (snd p)" arbitrary: p os rule: less_induct)
  case less
  show ?case
  proof (cases "search optionRegex [] (fst p) (snd p)")
    case None
    with less.prems show ?thesis by (subst (asm) optionLoop.simps) simp
  next
    case (Some sm)
    obtain sk mt where sm: "sm = (sk, mt)" by (cases sm)
    from search_sound[OF Some[unfolded sm]] optionRegex_facts
    have smaller: "length (snd (after mt)) < length (snd p)" by auto
    from less.prems(1) Some sm obtain os' where
      step: "optionStep mt os = Inr os'" and rest: "optionLoop (after mt) os' = Some (Inr r)"
      by (subst (asm) optionLoop.simps) (auto split: sum.splits)
    from less.hyps[OF smaller rest optionStep_denied[OF step less.prems(2)]] show ?thesis .
  qed
qed

lemma parseOptions_denied: "parseOptions h = Some (Inr os) \<Longrightarrow> denied os"
  using optionLoop_denied[where os = "[]"]
  by (auto simp: parseOptions_def denied_def split: option.splits sum.splits)

lemma applyPrompts_denied: "applyPrompts h os0 = Inr os \<Longrightarrow> denied os0 \<Longrightarrow> denied os"
  by (auto simp: applyPrompts_def promptMark_def denied_def split: option.splits sum.splits if_splits)

lemma parseGeneratorHelp_denied:
  "parseGeneratorHelp h = Some (Inr info) \<Longrightarrow> denied (options info)"
  by (auto simp: parseGeneratorHelp_def split: sum.splits option.splits
           dest!: parseOptions_denied dest: applyPrompts_denied)

lemma sampleHelp_parsed:
  "parseGeneratorHelp sampleHelp =
     Some (Inr \<lparr>args = [],
                options =
                  [\<lparr>optName = ''quiet'', optFlag = [], optDescription = ''required'',
                    optDefault = None, optRequired = Some False\<rparr>,
                   \<lparr>optName = ''mode'', optFlag = [], optDescription = ''(Required)'',
                    optDefault = Some ''x'', optRequired = Some True\<rparr>,
                   \<lparr>optName = ''tag'', optFlag = [], optDescription = ''Optional'',
                    optDefault = Some ''y'', optRequired = Some False\<rparr>]\<rparr>)"
  by code_simp

text \<open>
  C8. For every help text and every option of the parsed result whose name is on the
  deny-list \<open>nonRequiredOptions\<close>, the parser marks the option not required and
  \<open>isOptionRequired\<close> is false for it, whatever its description and default and
  whatever a Questions, Prompts or Inputs section says.
\<close>

theorem deny_listed_not_required:
  "parseGeneratorHelp helpOutput = Some (Inr info) \<Longrightarrow> option \<in> set (options info) \<Longrightarrow>
   optName option \<in> set nonRequiredOptions \<Longrightarrow>
   optRequired option = Some False \<and> \<not> isOptionRequired option"
proof -
  assume p: "parseGeneratorHelp helpOutput = Some (Inr info)"
    and m: "option \<in> set (options info)" and n: "optName option \<in> set nonRequiredOptions"
  from parseGeneratorHelp_denied[OF p] m n have "optRequired option = Some False"
    by (auto simp: denied_def)
  with n show ?thesis by (simp add: isOptionRequired_def)
qed

theorem deny_listed_not_required_witness:
  "optRequired \<lparr>optName = ''quiet'', optFlag = [], optDescription = ''required'',
                optDefault = None, optRequired = Some False\<rparr> = Some False \<and>
   \<not> isOptionRequired \<lparr>optName = ''quiet'', optFlag = [], optDescription = ''required'',
                optDefault = None, optRequired = Some False\<rparr>"
  using deny_listed_not_required[OF sampleHelp_parsed,
          of "\<lparr>optName = ''quiet'', optFlag = [], optDescription = ''required'',
                optDefault = None, optRequired = Some False\<rparr>"]
  by (simp add: nonRequiredOptions_def)

text \<open>
  C1. An option with a default is to be classified not required. The parser marks every
  option whose description does not contain \<open>Optional\<close> as required, and
  \<open>isOptionRequired\<close> answers true for a marked option before it looks at the default:
  the option \<open>--port # Port number Default: 8080\<close> is parsed with the default \<open>8080\<close>
  and is classified required.
\<close>

theorem default_classified_required:
  "parseGeneratorHelp portHelp =
     Some (Inr \<lparr>args = [],
                options =
                  [\<lparr>optName = ''port'', optFlag = [], optDescription = ''Port number'',
                    optDefault = Some ''8080'', optRequired = Some True\<rparr>]\<rparr>) \<and>
   isOptionRequired \<lparr>optName = ''port'', optFlag = [], optDescription = ''Port number'',
                     optDefault = Some ''8080'', optRequired = Some True\<rparr>"
  by code_simp

section \<open>Properties of the enumerated choices\<close>

lemma orElse_simps [simp]: "orElse None b = b" "orElse a None = a" "orElse (Some x) b = Some x"
  by (simp_all add: orElse_def split: option.splits)

lemma iterG_class:
  assumes k: "\<And>caps pv c cs. P c \<Longrightarrow> k caps (pv, c # cs) = None"
  shows "length s \<le> n \<Longrightarrow>
         iterG (run (Chr P)) k n caps (pv, s) = k caps (prevAfter pv (takeWhile P s), dropWhile P s)"
proof (induction n arbitrary: s pv)
  case 0
  then show ?case by (simp add: prevAfter_def)
next
  case (Suc n)
  show ?case
  proof (cases s)
    case Nil
    then show ?thesis by (simp add: prevAfter_def)
  next
    case (Cons c cs)
    show ?thesis
    proof (cases "P c")
      case True
      have "length cs \<le> n" using Suc.prems Cons by simp
      from Suc.IH[OF this, of "Some c"] True Cons k[OF True] show ?thesis
        by (simp add: progress_def prevAfter_def)
    next
      case False
      with Cons show ?thesis by (simp add: prevAfter_def)
    qed
  qed
qed

lemma take_dropWhile: "take (length s - length (dropWhile P s)) s = takeWhile P s"
proof -
  have "length s - length (dropWhile P s) = length (takeWhile P s)"
    by (metis add_diff_cancel_right' length_append takeWhile_dropWhile_id)
  then show ?thesis by (metis append_eq_conv_conj takeWhile_dropWhile_id)
qed

lemma run_Plus_class:
  assumes k: "\<And>caps pv c cs. P c \<Longrightarrow> k caps (pv, c # cs) = None"
  shows "run (Plus (Chr P)) k caps (pv, s) =
           (if takeWhile P s = [] then None
            else k caps (prevAfter pv (takeWhile P s), dropWhile P s))"
proof (cases s)
  case Nil
  then show ?thesis by (simp add: Plus_def)
next
  case (Cons d ds)
  show ?thesis
  proof (cases "P d")
    case True
    have "iterG (run (Chr P)) k (length ds) caps (Some d, ds) =
            k caps (prevAfter (Some d) (takeWhile P ds), dropWhile P ds)"
      by (rule iterG_class[where P = P and k = k]) (simp_all add: k)
    with Cons True show ?thesis by (simp add: Plus_def prevAfter_def)
  next
    case False
    with Cons show ?thesis by (simp add: Plus_def)
  qed
qed

lemma matchAt_enumRegex:
  "map_option (\<lambda>mt. groups mt 1) (matchAt enumRegex (pv, s)) =
     (case s of [] \<Rightarrow> None
      | c # cs \<Rightarrow>
          if c = CHR ''['' \<and> takeWhile (\<lambda>x. x \<noteq> CHR '']'') cs \<noteq> [] \<and>
             dropWhile (\<lambda>x. x \<noteq> CHR '']'') cs \<noteq> []
          then Some (Some (takeWhile (\<lambda>x. x \<noteq> CHR '']'') cs)) else None)"
proof (cases s)
  case Nil
  then show ?thesis by (simp add: matchAt_def enumRegex_def Lit_def)
next
  case (Cons c cs)
  let ?P = "\<lambda>x. x \<noteq> CHR '']''"
  let ?K0 = "\<lambda>caps' p'. Some \<lparr>whole = take (length (c # cs) - length (snd p')) (c # cs),
                                groups = caps', after = p'\<rparr>"
  let ?K1 = "\<lambda>caps' p'. run (Lit CHR '']'') ?K0
                (caps'(1 \<mapsto> take (length cs - length (snd p')) cs)) p'"
  show ?thesis
  proof (cases "c = CHR ''[''")
    case False
    with Cons show ?thesis by (simp add: matchAt_def enumRegex_def Lit_def)
  next
    case True
    have k1: "?K1 caps (pv', e # es) = None" if "?P e" for caps pv' e es
      using that by (simp add: Lit_def)
    have 1: "matchAt enumRegex (pv, c # cs) = run (Plus (Chr ?P)) ?K1 Map.empty (Some c, cs)"
      using True by (simp add: matchAt_def enumRegex_def Lit_def Not_def)
    have 2: "run (Plus (Chr ?P)) ?K1 Map.empty (Some c, cs) =
               (if takeWhile ?P cs = [] then None
                else ?K1 Map.empty (prevAfter (Some c) (takeWhile ?P cs), dropWhile ?P cs))"
      by (rule run_Plus_class[where k = ?K1 and P = ?P, OF k1])
    have 3: "map_option (\<lambda>mt. groups mt 1)
               (?K1 Map.empty (prevAfter (Some c) (takeWhile ?P cs), dropWhile ?P cs)) =
             (if dropWhile ?P cs = [] then None else Some (Some (takeWhile ?P cs)))"
    proof (cases "dropWhile ?P cs")
      case Nil
      show ?thesis unfolding Nil by (simp add: Lit_def)
    next
      case (Cons e es)
      then have e: "e = CHR '']''"
        by (metis (mono_tags, lifting) hd_dropWhile list.discI list.sel(1))
      show ?thesis
        unfolding Cons using e take_dropWhile[of cs ?P, unfolded Cons] by (simp add: Lit_def)
    qed
    define R where
      "R = ?K1 Map.empty (prevAfter (Some c) (takeWhile ?P cs), dropWhile ?P cs)"
    have m: "matchAt enumRegex (pv, c # cs) = (if takeWhile ?P cs = [] then None else R)"
      unfolding R_def 1 2 ..
    have r: "map_option (\<lambda>mt. groups mt 1) R =
               (if dropWhile ?P cs = [] then None else Some (Some (takeWhile ?P cs)))"
      unfolding R_def by (rule 3)
    show ?thesis
      unfolding Cons m using True r
      by (cases "takeWhile ?P cs = []"; cases "dropWhile ?P cs = []") auto
  qed
qed

lemma search_enumRegex:
  "map_option (\<lambda>x. groups (snd x) 1) (search enumRegex sk pv s) = map_option Some (firstBracketed s)"
proof (induction s arbitrary: sk pv)
  case Nil
  then show ?case
    using matchAt_enumRegex[of pv "[]"] by (auto split: option.splits)
next
  case (Cons c cs)
  show ?case
    using matchAt_enumRegex[of pv "c # cs"] Cons.IH[of "c # sk" "Some c"]
    by (cases "matchAt enumRegex (pv, c # cs)") (auto split: if_splits)
qed

text \<open>What the expression of \<open>extractEnumValues\<close> finds, for every description: the
  content of the first bracket group, split at \<open>|\<close>, with or without a pipe inside.\<close>

lemma extractEnumValues_first_bracket:
  "extractEnumValues description = map_option (split CHR ''|'') (firstBracketed description)"
  using search_enumRegex[of "[]" None description]
  by (cases "search enumRegex [] None description"; cases "firstBracketed description")
     (auto simp: extractEnumValues_def match_def)

text \<open>
  C6. The enumerated choices are to be the segments of a bracketed, pipe-delimited
  list, and \<open>null\<close> without one. The expression of \<open>extractEnumValues\<close> asks for
  brackets, not for a pipe: the option \<open>--babel # Use Babel [Optional]\<close>, whose
  description has no pipe-delimited list, gets the one choice \<open>Optional\<close>, and for
  that choice it is classified required.
\<close>

theorem bracketed_word_taken_as_choice:
  "parseGeneratorHelp babelHelp =
     Some (Inr \<lparr>args = [],
                options =
                  [\<lparr>optName = ''babel'', optFlag = [], optDescription = ''Use Babel [Optional]'',
                    optDefault = None, optRequired = Some False\<rparr>]\<rparr>) \<and>
   extractEnumValues ''Use Babel [Optional]'' = Some [''Optional''] \<and>
   isOptionRequired \<lparr>optName = ''babel'', optFlag = [], optDescription = ''Use Babel [Optional]'',
                     optDefault = None, optRequired = Some False\<rparr>"
  by code_simp

section \<open>Properties of the requirement check\<close>

lemma split_not_empty: "split d s \<noteq> []"
  by (induction s) (auto split: list.splits)

lemma extractEnumValues_not_empty: "extractEnumValues d = Some vs \<Longrightarrow> 0 < length vs"
  by (auto simp: extractEnumValues_def split_not_empty split: option.splits)

lemma checkArg_missing:
  "missingRequired (checkArg pa r ia) =
     missingRequired r @ (if argMissing pa ia then [argReport ia] else [])"
  by (cases ia) (simp add: checkArg_def argMissing_def argReport_def)

lemma foldl_checkArg_missing:
  "missingRequired (foldl (checkArg pa) r xs) =
     missingRequired r @ map argReport (filter (argMissing pa) xs)"
  by (induction xs arbitrary: r) (simp_all add: checkArg_missing)

lemma checkOption_missing:
  "missingOptions (checkOption po r option) =
     missingOptions r @ (if optionMissing po option then [optionReport option] else [])"
proof (cases "extractEnumValues (optDescription option)")
  case None
  then show ?thesis
    by (simp add: checkOption_def optionMissing_def optionReport_def Let_def)
next
  case (Some vs)
  with extractEnumValues_not_empty[OF Some] show ?thesis
    by (simp add: checkOption_def optionMissing_def optionReport_def Let_def)
qed

lemma foldl_checkOption_missing:
  "missingOptions (foldl (checkOption po) r xs) =
     missingOptions r @ map optionReport (filter (optionMissing po) xs)"
  by (induction xs arbitrary: r) (simp_all add: checkOption_missing)

lemma checkArg_keeps:
  "missingOptions (checkArg pa r ia) = missingOptions r"
  "defaultOptions (checkArg pa r ia) = defaultOptions r"
  by (auto simp: checkArg_def split: prod.splits)

lemma checkOption_keeps:
  "missingRequired (checkOption po r option) = missingRequired r"
  "defaultOptions (checkOption po r option) = defaultOptions r"
  by (auto simp: checkOption_def Let_def)

lemma foldl_checkArg_keeps:
  "missingOptions (foldl (checkArg pa) r xs) = missingOptions r"
  "defaultOptions (foldl (checkArg pa) r xs) = defaultOptions r"
  by (induction xs arbitrary: r) (simp_all add: checkArg_keeps)

lemma foldl_checkOption_keeps:
  "missingRequired (foldl (checkOption po) r xs) = missingRequired r"
  "defaultOptions (foldl (checkOption po) r xs) = defaultOptions r"
  by (induction xs arbitrary: r) (simp_all add: checkOption_keeps)

text \<open>What the check reports, for every input: the arguments that are required and whose
  index is not below the number of provided arguments, and the options that are
  classified required and for which reading the provided options finds no truthy value
  under the option's name nor under its camel-cased name.\<close>

lemma missing_report:
  "missingRequired (checkRequiredArguments info providedArgs providedOptions) =
     map argReport (filter (argMissing providedArgs) (enumerate 0 (args info))) \<and>
   missingOptions (checkRequiredArguments info providedArgs providedOptions) =
     map optionReport (filter (optionMissing providedOptions) (options info))"
  by (simp add: checkRequiredArguments_def Let_def foldl_checkOption_missing
        foldl_checkOption_keeps foldl_checkArg_missing foldl_checkArg_keeps)

text \<open>
  C3. An option is to be reported missing exactly when it is classified required and
  absent from the provided options. The check tests the value under the option's name for
  truthiness instead: the required option \<open>client-port\<close>, provided with the value \<open>0\<close>,
  is reported missing, while the loop that builds the command line renders that same
  entry as \<open>--client-port=0\<close>.
\<close>

theorem provided_zero_reported_missing:
  "missingOptions (checkRequiredArguments
       \<lparr>args = [],
        options = [\<lparr>optName = ''client-port'', optFlag = [],
                    optDescription = ''Optional client port'',
                    optDefault = None, optRequired = Some False\<rparr>]\<rparr>
       [] [(''client-port'', JNum ''0'')]) =
     [\<lparr>moName = ''client-port'', moDescription = ''Optional client port'',
       moEnumValues = None\<rparr>] \<and>
   map_of [(''client-port'', JNum ''0'')] ''client-port'' = Some (JNum ''0'') \<and>
   pushOptions [] [(''client-port'', JNum ''0'')] = Inr [''--client-port=0'']"
  by code_simp

text \<open>
  C10. For every parsed help, list of provided arguments and object of provided options,
  the \<open>defaultOptions\<close> field of the result of \<open>checkRequiredArguments\<close> is the empty
  object: the function creates it empty and no step writes to it.
\<close>

theorem defaultOptions_empty:
  "defaultOptions (checkRequiredArguments info providedArgs providedOptions) = []"
  by (simp add: checkRequiredArguments_def Let_def foldl_checkOption_keeps foldl_checkArg_keeps)

section \<open>Properties of the outcome of a run\<close>

text \<open>
  C2. Once the process has ended, for every output and exit code: if the output contains
  \<open>Did not find a suitable generator\<close> the result is the not-found failure, with
  \<open>success\<close> false, whatever the exit code; else if the output has prompt markers the
  result is the interactive-mode failure; else if it contains \<open>Invalid version format\<close>
  the result is the invalid-version failure; else if the exit code is not 0 the result is
  the generic failure; else the result is the success.
\<close>

theorem outcome_precedence:
  "(includesStr out ''Did not find a suitable generator'' \<longrightarrow>
      (\<exists>e s. runOutcome g rc (onClose exitCode out) = NotFound e (cleanOutput out) s) \<and>
      \<not> success (runOutcome g rc (onClose exitCode out))) \<and>
   (\<not> includesStr out ''Did not find a suitable generator'' \<longrightarrow> hasPrompts out \<longrightarrow>
      (\<exists>e s. runOutcome g rc (onClose exitCode out) =
                StillInteractive e (cleanOutput out) (promptLines out) s)) \<and>
   (\<not> includesStr out ''Did not find a suitable generator'' \<longrightarrow> \<not> hasPrompts out \<longrightarrow>
    includesStr out ''Invalid version format'' \<longrightarrow>
      (\<exists>e s. runOutcome g rc (onClose exitCode out) = InvalidVersionFormat e (cleanOutput out) s)) \<and>
   (\<not> includesStr out ''Did not find a suitable generator'' \<longrightarrow> \<not> hasPrompts out \<longrightarrow>
    \<not> includesStr out ''Invalid version format'' \<longrightarrow> exitCode \<noteq> Some 0 \<longrightarrow>
      (\<exists>e. runOutcome g rc (onClose exitCode out) = GenericFailure e (cleanOutput out))) \<and>
   (\<not> includesStr out ''Did not find a suitable generator'' \<longrightarrow> \<not> hasPrompts out \<longrightarrow>
    \<not> includesStr out ''Invalid version format'' \<longrightarrow> exitCode = Some 0 \<longrightarrow>
      (\<exists>c. runOutcome g rc (onClose exitCode out) = Success (cleanOutput out) True c) \<and>
      success (runOutcome g rc (onClose exitCode out)))"
  by (simp add: runOutcome_def onClose_def)

theorem outcome_precedence_witness:
  "\<not> success (runOutcome ''app'' None (onClose (Some 0) ''Did not find a suitable generator'')) \<and>
   (\<exists>e s. runOutcome ''app'' None (onClose (Some 0) ''? Your name'') =
             StillInteractive e (cleanOutput ''? Your name'') (promptLines ''? Your name'') s) \<and>
   (\<exists>e s. runOutcome ''app'' None (onClose (Some 0) ''Invalid version format'') =
             InvalidVersionFormat e (cleanOutput ''Invalid version format'') s) \<and>
   (\<exists>e. runOutcome ''app'' None (onClose (Some 1) ''boom'') = GenericFailure e (cleanOutput ''boom'')) \<and>
   success (runOutcome ''app'' None (onClose (Some 0) ''done''))"
proof (intro conjI)
  have 1: "includesStr ''Did not find a suitable generator'' ''Did not find a suitable generator''"
    by code_simp
  from outcome_precedence[of "''Did not find a suitable generator''" "''app''" None "Some 0",
         THEN conjunct1, rule_format, OF 1]
  show "\<not> success (runOutcome ''app'' None (onClose (Some 0) ''Did not find a suitable generator''))"
    by (rule conjunct2)
next
  have 2: "\<not> includesStr ''? Your name'' ''Did not find a suitable generator''"
    and 3: "hasPrompts ''? Your name''"
    by code_simp+
  from outcome_precedence[of "''? Your name''" "''app''" None "Some 0",
         THEN conjunct2, THEN conjunct1, rule_format, OF 2 3]
  show "\<exists>e s. runOutcome ''app'' None (onClose (Some 0) ''? Your name'') =
             StillInteractive e (cleanOutput ''? Your name'') (promptLines ''? Your name'') s" .
next
  have 2: "\<not> includesStr ''Invalid version format'' ''Did not find a suitable generator''"
    and 3: "\<not> hasPrompts ''Invalid version format''"
    and 4: "includesStr ''Invalid version format'' ''Invalid version format''"
    by code_simp+
  from outcome_precedence[of "''Invalid version format''" "''app''" None "Some 0",
         THEN conjunct2, THEN conjunct2, THEN conjunct1, rule_format, OF 2 3 4]
  show "\<exists>e s. runOutcome ''app'' None (onClose (Some 0) ''Invalid version format'') =
             InvalidVersionFormat e (cleanOutput ''Invalid version format'') s" .
next
  have 2: "\<not> includesStr ''boom'' ''Did not find a suitable generator''"
    and 3: "\<not> hasPrompts ''boom''"
    and 4: "\<not> includesStr ''boom'' ''Invalid version format''"
    and 5: "Some (1::int) \<noteq> Some 0"
    by code_simp+
  from outcome_precedence[of "''boom''" "''app''" None "Some 1",
         THEN conjunct2, THEN conjunct2, THEN conjunct2, THEN conjunct1, rule_format, OF 2 3 4 5]
  show "\<exists>e. runOutcome ''app'' None (onClose (Some 1) ''boom'') =
             GenericFailure e (cleanOutput ''boom'')" .
next
  have 2: "\<not> includesStr ''done'' ''Did not find a suitable generator''"
    and 3: "\<not> hasPrompts ''done''"
    and 4: "\<not> includesStr ''done'' ''Invalid version format''"
    by code_simp+
  from outcome_precedence[of "''done''" "''app''" None "Some 0",
         THEN conjunct2, THEN conjunct2, THEN conjunct2, THEN conjunct2, rule_format, OF 2 3 4 refl]
  show "success (runOutcome ''app'' None (onClose (Some 0) ''done''))"
    by (rule conjunct2)
qed

text \<open>
  C7. \<open>cleanOutput\<close> removes each kind of escape sequence in one pass. When the color
  sequence \<open>ESC [ 1 m\<close> stands inside the pieces of another one, removing it joins the
  pieces: the result is a color sequence, and cleaning it again changes it.
\<close>

theorem cleanOutput_nested_escape:
  "cleanOutput ([ESC] @ ''['' @ [ESC] @ ''[1m1m'') = [ESC] @ ''[1m'' \<and>
   cleanOutput (cleanOutput ([ESC] @ ''['' @ [ESC] @ ''[1m1m'')) = []"
  by code_simp

section \<open>Properties of the yeoman_generate request\<close>

text \<open>
  C4, as stated, fails: the handler prepends the application name and the version only
  when they are not empty. With an empty application name the run gets the version and
  the caller's arguments, not the empty name in front of them.
\<close>

theorem positional_args_empty_name:
  "callArgs (generateCall \<lparr>reqGeneratorName = ''app'', reqOptions = None, reqCwd = ''/tmp'',
      reqArgs = Some [''extra''], reqAppName = '''', reqVersion = ''1.0.0''\<rparr>) = [''1.0.0'', ''extra'']
   \<and> [''1.0.0'', ''extra''] \<noteq> ['''', ''1.0.0''] @ [''extra'']"
  by (simp add: generateCall_def allPositionalArgs_def)

text \<open>
  C4, amended. For every request with application name \<open>a\<close>, version \<open>v\<close> and extra
  arguments \<open>xs\<close>, the positional arguments passed to the run are \<open>a\<close> unless it is
  empty, then \<open>v\<close> unless it is empty, then \<open>xs\<close> in the caller's order: \<open>a\<close>, \<open>v\<close>
  and \<open>xs\<close> when neither is empty, and an empty name or version is left out.
\<close>

theorem positional_args_prepended:
  "callArgs (generateCall req) =
     (if reqAppName req = [] then [] else [reqAppName req]) @
     (if reqVersion req = [] then [] else [reqVersion req]) @
     (case reqArgs req of None \<Rightarrow> [] | Some xs \<Rightarrow> xs)"
  by (simp add: generateCall_def allPositionalArgs_def)

theorem positional_args_prepended_witness:
  "callArgs (generateCall \<lparr>reqGeneratorName = ''app'', reqOptions = None, reqCwd = ''/tmp'',
      reqArgs = Some [''extra''], reqAppName = ''shop'', reqVersion = ''1.0.0''\<rparr>) =
     [''shop'', ''1.0.0'', ''extra''] \<and>
   callArgs (generateCall \<lparr>reqGeneratorName = ''app'', reqOptions = None, reqCwd = ''/tmp'',
      reqArgs = Some [''extra''], reqAppName = ''shop'', reqVersion = []\<rparr>) =
     [''shop'', ''extra'']"
  using positional_args_prepended [of "\<lparr>reqGeneratorName = ''app'', reqOptions = None,
      reqCwd = ''/tmp'', reqArgs = Some [''extra''], reqAppName = ''shop'', reqVersion = ''1.0.0''\<rparr>"]
    positional_args_prepended [of "\<lparr>reqGeneratorName = ''app'', reqOptions = None,
      reqCwd = ''/tmp'', reqArgs = Some [''extra''], reqAppName = ''shop'', reqVersion = []\<rparr>"]
  by simp










end
